theory Spec2Isabelle
  imports Main "HOL-Library.Sublist"
begin

section \<open>The command-line layer of beneuro\_data (\<open>src/beneuro_data/cli.py\<close>)\<close>

text \<open>
  The four commands of \<open>cli.py\<close> are embedded as functions from an explicit world (current
  directory, file system, configuration, and the behaviour of the three imported operations)
  to a pair: the trace of externally visible events (calls of the imported operations and
  printed lines, in order) and the outcome (a returned value or a raised exception).
\<close>

subsection \<open>Python values and exceptions\<close>

text \<open>
  The exception classes that occur. \<open>KeyboardInterrupt\<close> and \<open>SystemExit\<close> derive from
  \<open>BaseException\<close> only; every other class derives from \<open>Exception\<close>.
  \<open>OtherException n\<close> stands for any further class \<open>n\<close> derived from \<open>Exception\<close>.
\<close>

datatype exc_class =
    NotImplementedError
  | ValueError
  | IndexError
  | AssertionError
  | OSError
  | FileNotFoundError
  | NotADirectoryError
  | PermissionError
  | MarkupError
  | KeyboardInterrupt
  | SystemExit
  | OtherException string

fun is_Exception :: "exc_class \<Rightarrow> bool" where
  "is_Exception KeyboardInterrupt = False"
| "is_Exception SystemExit = False"
| "is_Exception _ = True"

text \<open>An exception instance: its class and its \<open>args\<close> tuple (each argument as \<open>str\<close> shows it).\<close>

datatype exn = Exn (cls: exc_class) (args: "string list")

datatype retval = NoneVal | BoolVal bool

datatype outcome = Return retval | Raise exn

subsection \<open>Paths and the file system (\<open>pathlib.Path\<close>, POSIX flavour)\<close>

datatype path = Path (is_absolute: bool) (parts: "string list")

datatype file_type = Directory | RegularFile

fun split_sep :: "string \<Rightarrow> string list" where
  "split_sep [] = [[]]"
| "split_sep (c # cs) =
     (if c = CHR ''/'' then [] # split_sep cs
      else (case split_sep cs of [] \<Rightarrow> [[c]] | x # xs \<Rightarrow> (c # x) # xs))"

definition parse_parts :: "string \<Rightarrow> string list" where
  "parse_parts s = filter (\<lambda>x. x \<noteq> [] \<and> x \<noteq> ''.'') (split_sep s)"

text \<open>
  A string that starts with exactly two slashes: POSIX keeps the root \<open>//\<close> apart from the
  root \<open>/\<close>; three slashes or more are the root \<open>/\<close> again.
\<close>

fun two_slashes :: "string \<Rightarrow> bool" where
  "two_slashes (a # b # c # _) = (a = CHR ''/'' \<and> b = CHR ''/'' \<and> c \<noteq> CHR ''/'')"
| "two_slashes [a, b] = (a = CHR ''/'' \<and> b = CHR ''/'')"
| "two_slashes _ = False"

text \<open>
  The operator \<open>p / s\<close> for a string \<open>s\<close>: an absolute \<open>s\<close> replaces \<open>p\<close>, otherwise the
  components of \<open>s\<close> are appended (empty components and \<open>.\<close> are dropped, \<open>..\<close> is kept).
  The root \<open>//\<close> is recorded as an empty first component, which no other path has.
\<close>

definition truediv :: "path \<Rightarrow> string \<Rightarrow> path" where
  "truediv p s =
     (case s of
        c # _ \<Rightarrow> if two_slashes s then Path True ([] # parse_parts s)
                 else if c = CHR ''/'' then Path True (parse_parts s)
                 else Path (is_absolute p) (parts p @ parse_parts s)
      | [] \<Rightarrow> p)"

text \<open>\<open>Path.name\<close>: the final component, the empty string when there is none.\<close>

definition path_name :: "path \<Rightarrow> string" where
  "path_name p = (case rev (parts p) of [] \<Rightarrow> [] | n # _ \<Rightarrow> n)"

record config =
  LOCAL_PATH :: path
  REMOTE_PATH :: path

text \<open>
  What \<open>os.stat\<close>, following symbolic links, does on a path: it finds a file of some type;
  or it fails in a way that \<open>pathlib\<close> takes for an answer (\<open>ENOENT\<close>, \<open>ENOTDIR\<close>, \<open>EBADF\<close>,
  \<open>ELOOP\<close>, or a \<open>ValueError\<close> for a path the system cannot take); or it fails with any other
  \<open>OSError\<close>, which \<open>pathlib\<close> raises again.
\<close>

datatype stat_error = NameTooLong | AccessDenied | OtherError string string

fun os_exn :: "stat_error \<Rightarrow> exn" where
  "os_exn NameTooLong = Exn OSError [''36'', ''File name too long'']"
| "os_exn AccessDenied = Exn PermissionError [''13'', ''Permission denied'']"
| "os_exn (OtherError errno strerror) = Exn OSError [errno, strerror]"

datatype stat_result = Found file_type | Unresolved | Fails stat_error

text \<open>
  The world a command runs in. \<open>listdir p\<close> is \<open>os.listdir\<close>, which raises or gives the
  names in the directory. The three imported operations and \<open>rich.print\<close> are not part of
  \<open>cli.py\<close>: each is given by what a call with these arguments does, \<open>None\<close> for a normal
  return and \<open>Some e\<close> when it raises \<open>e\<close> (\<open>rich.print\<close> raises \<open>MarkupError\<close> on a text
  with a closing tag that closes nothing). The file system is the same throughout one
  command.
\<close>

record world =
  cwd :: "string list"
  stat :: "path \<Rightarrow> stat_result"
  listdir :: "path \<Rightarrow> exn + string list"
  config :: config
  validate_raw_session :: "path \<Rightarrow> string \<Rightarrow> bool \<Rightarrow> bool \<Rightarrow> bool \<Rightarrow> exn option"
  upload_raw_session ::
    "path \<Rightarrow> string \<Rightarrow> path \<Rightarrow> path \<Rightarrow> bool \<Rightarrow> bool \<Rightarrow> bool \<Rightarrow> exn option"
  rename_raw_videos_of_session :: "path \<Rightarrow> string \<Rightarrow> bool \<Rightarrow> exn option"
  rich_print :: "string \<Rightarrow> exn option"

text \<open>\<open>Path.absolute()\<close>: a relative path is put under the current directory, nothing is resolved.\<close>

definition absolute :: "world \<Rightarrow> path \<Rightarrow> path" where
  "absolute w p = (if is_absolute p then p else Path True (cwd w @ parts p))"

text \<open>
  \<open>Path.is_dir()\<close> and \<open>Path.exists()\<close> both go through \<open>stat\<close>: they answer False on a
  failure that \<open>pathlib\<close> ignores and raise the \<open>OSError\<close> of any other failure.
\<close>

definition is_dir :: "world \<Rightarrow> path \<Rightarrow> exn + bool" where
  "is_dir w p =
     (case stat w p of
        Found t \<Rightarrow> Inr (t = Directory)
      | Unresolved \<Rightarrow> Inr False
      | Fails x \<Rightarrow> Inl (os_exn x))"

definition exists_path :: "world \<Rightarrow> path \<Rightarrow> exn + bool" where
  "exists_path w p =
     (case stat w p of
        Found t \<Rightarrow> Inr True
      | Unresolved \<Rightarrow> Inr False
      | Fails x \<Rightarrow> Inl (os_exn x))"

text \<open>\<open>Path.iterdir()\<close>: one child path per listed name; the listing is taken once.\<close>

definition child :: "path \<Rightarrow> string \<Rightarrow> path" where
  "child p n = Path (is_absolute p) (parts p @ [n])"

definition iterdir :: "world \<Rightarrow> path \<Rightarrow> exn + path list" where
  "iterdir w p = (case listdir w p of Inl e \<Rightarrow> Inl e | Inr names \<Rightarrow> Inr (map (child p) names))"

subsection \<open>Events and runs\<close>

datatype event =
    ValidateRaw path string bool bool bool
  | UploadRaw path string path path bool bool bool
  | RenameVideos path string bool
  | Print string

type_synonym run = "event list \<times> outcome"

definition after :: "event list \<Rightarrow> run \<Rightarrow> run" where
  "after es r = (es @ fst r, snd r)"

text \<open>A call of an imported operation: the call is recorded, then it returns or raises.\<close>

definition finish :: "event \<Rightarrow> exn option \<Rightarrow> retval \<Rightarrow> run" where
  "finish ev res v = (case res of None \<Rightarrow> ([ev], Return v) | Some e \<Rightarrow> ([ev], Raise e))"

definition only_raw :: exn where
  "only_raw = Exn NotImplementedError [''Sorry, only raw data is supported for now.'']"

definition none_checked :: exn where
  "none_checked = Exn ValueError [''At least one data type must be checked.'']"

definition not_a_directory :: exn where
  "not_a_directory = Exn ValueError [''Session path must be a directory.'']"

definition does_not_exist :: exn where
  "does_not_exist = Exn ValueError [''Session path does not exist.'']"

subsection \<open>The commands\<close>

definition validate_session ::
  "world \<Rightarrow> path \<Rightarrow> string \<Rightarrow> string \<Rightarrow> bool \<Rightarrow> bool \<Rightarrow> bool \<Rightarrow> run" where
  "validate_session w session_path subject_name processing_level
       check_behavior check_ephys check_videos =
     (if processing_level \<noteq> ''raw'' then ([], Raise only_raw)
      else if list_all (\<lambda>b. b) [\<not> check_behavior, \<not> check_ephys, \<not> check_videos]
        then ([], Raise none_checked)
      else
        (case is_dir w (absolute w session_path) of
           Inl e \<Rightarrow> ([], Raise e)
         | Inr d \<Rightarrow>
             if \<not> d then ([], Raise not_a_directory)
             else
               (case exists_path w (absolute w session_path) of
                  Inl e \<Rightarrow> ([], Raise e)
                | Inr x \<Rightarrow>
                    if \<not> x then ([], Raise does_not_exist)
                    else finish
                      (ValidateRaw (absolute w session_path) subject_name
                         check_behavior check_ephys check_videos)
                      (validate_raw_session w (absolute w session_path) subject_name
                         check_behavior check_ephys check_videos)
                      NoneVal)))"

definition rename_videos :: "world \<Rightarrow> path \<Rightarrow> string \<Rightarrow> string \<Rightarrow> bool \<Rightarrow> run" where
  "rename_videos w session_path subject_name processing_level verbose =
     (if processing_level \<noteq> ''raw'' then ([], Raise only_raw)
      else
        (case is_dir w (absolute w session_path) of
           Inl e \<Rightarrow> ([], Raise e)
         | Inr d \<Rightarrow>
             if \<not> d then ([], Raise not_a_directory)
             else
               (case exists_path w (absolute w session_path) of
                  Inl e \<Rightarrow> ([], Raise e)
                | Inr x \<Rightarrow>
                    if \<not> x then ([], Raise does_not_exist)
                    else finish
                      (RenameVideos (absolute w session_path) subject_name verbose)
                      (rename_raw_videos_of_session w (absolute w session_path)
                         subject_name verbose)
                      NoneVal)))"

definition upload_session ::
  "world \<Rightarrow> path \<Rightarrow> string \<Rightarrow> string \<Rightarrow> bool \<Rightarrow> bool \<Rightarrow> bool \<Rightarrow> run" where
  "upload_session w local_session_path subject_name processing_level
       include_behavior include_ephys include_videos =
     (if processing_level \<noteq> ''raw'' then ([], Raise only_raw)
      else if list_all (\<lambda>b. b) [\<not> include_behavior, \<not> include_ephys, \<not> include_videos]
        then ([], Raise none_checked)
      else finish
        (UploadRaw (absolute w local_session_path) subject_name
           (LOCAL_PATH (config w)) (REMOTE_PATH (config w))
           include_behavior include_ephys include_videos)
        (upload_raw_session w (absolute w local_session_path) subject_name
           (LOCAL_PATH (config w)) (REMOTE_PATH (config w))
           include_behavior include_ephys include_videos)
        (BoolVal True))"

text \<open>
  The two texts the batch hands to \<open>print\<close>, each with its own line break at the end.
\<close>

definition problem_line :: "path \<Rightarrow> string \<Rightarrow> string" where
  "problem_line session_path reason =
     ''[bold red]Problem with '' @ path_name session_path @ '': '' @ reason @ [CHR 0x0A]"

definition good_line :: "path \<Rightarrow> string" where
  "good_line session_path =
     ''[bold green]'' @ path_name session_path @ '' looking good.'' @ [CHR 0x0A]"

text \<open>
  \<open>print(text)\<close> followed by the rest of the loop: the event \<open>Print\<close> is recorded when
  \<open>rich.print\<close> returns; when it raises, nothing is printed and the exception leaves the
  loop, since both calls of \<open>print\<close> are outside the \<open>try\<close> block.
\<close>

definition print_then :: "world \<Rightarrow> string \<Rightarrow> run \<Rightarrow> run" where
  "print_then w text rest =
     (case rich_print w text of
        Some e \<Rightarrow> ([], Raise e)
      | None \<Rightarrow> after [Print text] rest)"

text \<open>
  The body of the \<open>for\<close> loop of \<open>validate_sessions\<close>, over the entries not yet visited.
  \<open>is_dir\<close> is called outside the \<open>try\<close> block. \<open>except Exception\<close> lets an exception that
  is not an \<open>Exception\<close> pass; in the handler, \<open>e.args[0]\<close> on an empty \<open>args\<close> raises
  \<open>IndexError\<close>, which leaves the loop.
\<close>

fun validate_each ::
  "world \<Rightarrow> string \<Rightarrow> bool \<Rightarrow> bool \<Rightarrow> bool \<Rightarrow> path list \<Rightarrow> run" where
  "validate_each w subject_name check_behavior check_ephys check_videos [] = ([], Return NoneVal)"
| "validate_each w subject_name check_behavior check_ephys check_videos (session_path # rest) =
     (case is_dir w session_path of
        Inl e \<Rightarrow> ([], Raise e)
      | Inr d \<Rightarrow>
          if d then
            (case validate_raw_session w session_path subject_name
                    check_behavior check_ephys check_videos of
               Some e \<Rightarrow>
                 if is_Exception (cls e) then
                   (case args e of
                      [] \<Rightarrow>
                        ([ValidateRaw session_path subject_name
                            check_behavior check_ephys check_videos],
                         Raise (Exn IndexError [''tuple index out of range'']))
                    | a # _ \<Rightarrow>
                        after
                          [ValidateRaw session_path subject_name
                             check_behavior check_ephys check_videos]
                          (print_then w (problem_line session_path a)
                             (validate_each w subject_name
                                check_behavior check_ephys check_videos rest)))
                 else
                   ([ValidateRaw session_path subject_name
                       check_behavior check_ephys check_videos],
                    Raise e)
             | None \<Rightarrow>
                 after
                   [ValidateRaw session_path subject_name
                      check_behavior check_ephys check_videos]
                   (print_then w (good_line session_path)
                      (validate_each w subject_name
                         check_behavior check_ephys check_videos rest)))
          else validate_each w subject_name check_behavior check_ephys check_videos rest)"

definition subject_path :: "world \<Rightarrow> string \<Rightarrow> string \<Rightarrow> path" where
  "subject_path w processing_level subject_name =
     truediv (truediv (LOCAL_PATH (config w)) processing_level) subject_name"

definition validate_sessions ::
  "world \<Rightarrow> string \<Rightarrow> string \<Rightarrow> bool \<Rightarrow> bool \<Rightarrow> bool \<Rightarrow> run" where
  "validate_sessions w subject_name processing_level check_behavior check_ephys check_videos =
     (if processing_level \<noteq> ''raw'' then ([], Raise only_raw)
      else if list_all (\<lambda>b. b) [\<not> check_behavior, \<not> check_ephys, \<not> check_videos]
        then ([], Raise none_checked)
      else
        (case iterdir w (subject_path w processing_level subject_name) of
           Inl e \<Rightarrow> ([], Raise e)
         | Inr entries \<Rightarrow>
             validate_each w subject_name check_behavior check_ephys check_videos entries))"

subsection \<open>A small world to run the commands in\<close>

text \<open>
  Under \<open>/data/raw/M017\<close>: the session directories \<open>M017_a\<close> and \<open>M017_b\<close> and the file
  \<open>notes.txt\<close>. A name of more than 255 characters makes \<open>stat\<close> fail with
  \<open>ENAMETOOLONG\<close>. Validation of \<open>M017_a\<close> fails with a message, everything else passes,
  and every text is printed.
\<close>

definition subject_dir :: path where
  "subject_dir = Path True [''data'', ''raw'', ''M017'']"

definition demo_stat :: "path \<Rightarrow> stat_result" where
  "demo_stat p =
     (if list_ex (\<lambda>n. 255 < length n) (parts p) then Fails NameTooLong
      else if p = Path True [''data''] \<or> p = Path True [''data'', ''raw''] \<or> p = subject_dir
         \<or> p = child subject_dir ''M017_a'' \<or> p = child subject_dir ''M017_b''
      then Found Directory
      else if p = child subject_dir ''notes.txt'' then Found RegularFile
      else Unresolved)"

definition demo_listdir :: "path \<Rightarrow> exn + string list" where
  "demo_listdir p =
     (if p = subject_dir then Inr [''M017_a'', ''notes.txt'', ''M017_b'']
      else if demo_stat p = Found Directory then Inr []
      else if demo_stat p = Unresolved
        then Inl (Exn FileNotFoundError [''2'', ''No such file or directory''])
      else Inl (Exn NotADirectoryError [''20'', ''Not a directory'']))"

definition demo_validate :: "path \<Rightarrow> string \<Rightarrow> bool \<Rightarrow> bool \<Rightarrow> bool \<Rightarrow> exn option" where
  "demo_validate p s b e v =
     (if p = child subject_dir ''M017_a''
      then Some (Exn ValueError [''Could not find ephys recordings''])
      else None)"

definition demo :: world where
  "demo = \<lparr> cwd = [''data'', ''raw'', ''M017''],
            stat = demo_stat,
            listdir = demo_listdir,
            config = \<lparr> LOCAL_PATH = Path True [''data''], REMOTE_PATH = Path True [''nas''] \<rparr>,
            validate_raw_session = demo_validate,
            upload_raw_session = (\<lambda>p s l r b e v. None),
            rename_raw_videos_of_session = (\<lambda>p s v. None),
            rich_print = (\<lambda>text. None) \<rparr>"

text \<open>A name of 300 characters: no file has it, and \<open>stat\<close> fails on it.\<close>

definition long_name :: path where
  "long_name = Path False [replicate 300 (CHR ''x'')]"

text \<open>The same world, except that validating \<open>M017_a\<close> is interrupted from the keyboard.\<close>

definition interrupted :: world where
  "interrupted = demo\<lparr>validate_raw_session :=
     (\<lambda>p s b e v. if p = child subject_dir ''M017_a''
                    then Some (Exn KeyboardInterrupt []) else None)\<rparr>"


text \<open>The same world, except that validating \<open>M017_a\<close> fails on a bare \<open>assert\<close>.\<close>

definition unexplained :: world where
  "unexplained = demo\<lparr>validate_raw_session :=
     (\<lambda>p s b e v. if p = child subject_dir ''M017_a''
                    then Some (Exn AssertionError []) else None)\<rparr>"

text \<open>
  The same world, except that validating \<open>M017_a\<close> fails with a reason that has a closing
  tag in it, on which \<open>rich.print\<close> raises.
\<close>

definition tagged :: world where
  "tagged = demo\<lparr>
     validate_raw_session :=
       (\<lambda>p s b e v. if p = child subject_dir ''M017_a''
                      then Some (Exn ValueError [''unexpected file [/ephys] found'']) else None),
     rich_print :=
       (\<lambda>text. if text = problem_line (child subject_dir ''M017_a'')
                            ''unexpected file [/ephys] found''
                 then Some (Exn MarkupError
                   [''closing tag [/ephys] at position 47 does not match any open tag''])
                 else None)\<rparr>"

subsection \<open>Reading a trace\<close>

fun is_validation :: "event \<Rightarrow> bool" where
  "is_validation (ValidateRaw p s b e v) = True"
| "is_validation _ = False"

fun roots_passed :: "event \<Rightarrow> (path \<times> path) option" where
  "roots_passed (UploadRaw p s local_root remote_root b e v) = Some (local_root, remote_root)"
| "roots_passed _ = None"

subsection \<open>The per-session report, as the specification words it\<close>

text \<open>
  An entry the loop gets past without an exception: \<open>is_dir\<close> answers; and when the entry
  is a directory, the validation returns or raises an \<open>Exception\<close> with a first argument
  to print as the reason, and the line about it is printed.
\<close>

definition handled :: "world \<Rightarrow> string \<Rightarrow> bool \<Rightarrow> bool \<Rightarrow> bool \<Rightarrow> path \<Rightarrow> bool" where
  "handled w s cb ce cv sp =
     (case is_dir w sp of
        Inl e \<Rightarrow> False
      | Inr d \<Rightarrow>
          if d then
            (case validate_raw_session w sp s cb ce cv of
               None \<Rightarrow> rich_print w (good_line sp) = None
             | Some e \<Rightarrow>
                 is_Exception (cls e)
                 \<and> (case args e of
                       [] \<Rightarrow> False
                     | a # _ \<Rightarrow> rich_print w (problem_line sp a) = None))
          else True)"

definition all_handled ::
  "world \<Rightarrow> string \<Rightarrow> bool \<Rightarrow> bool \<Rightarrow> bool \<Rightarrow> path list \<Rightarrow> bool" where
  "all_handled w s cb ce cv entries = list_all (handled w s cb ce cv) entries"

text \<open>
  The line reported for one session: passed, or failed with the reason. An exception
  without arguments has no reason to report.
\<close>

fun verdict :: "path \<Rightarrow> exn option \<Rightarrow> string" where
  "verdict sp None = good_line sp"
| "verdict sp (Some (Exn c (a # as))) = problem_line sp a"
| "verdict sp (Some (Exn c [])) = []"

definition session_report ::
  "world \<Rightarrow> string \<Rightarrow> bool \<Rightarrow> bool \<Rightarrow> bool \<Rightarrow> path \<Rightarrow> event list" where
  "session_report w s cb ce cv sp =
     [ValidateRaw sp s cb ce cv, Print (verdict sp (validate_raw_session w sp s cb ce cv))]"

text \<open>The report of a batch: every directory among the entries, in order, validated and reported.\<close>

definition batch_report ::
  "world \<Rightarrow> string \<Rightarrow> bool \<Rightarrow> bool \<Rightarrow> bool \<Rightarrow> path list \<Rightarrow> event list" where
  "batch_report w s cb ce cv entries =
     concat (map (session_report w s cb ce cv) (filter (\<lambda>sp. is_dir w sp = Inr True) entries))"

subsection \<open>The transfer engine\<close>















section \<open>Auxiliary facts\<close>

text \<open>A path that \<open>is_dir\<close> accepts exists, and one that \<open>exists\<close> rejects is no directory.\<close>

lemma is_dir_exists: "is_dir w q = Inr True \<Longrightarrow> exists_path w q = Inr True"
  by (simp add: is_dir_def exists_path_def split: stat_result.splits)

lemma missing_is_no_directory: "exists_path w q = Inr False \<Longrightarrow> is_dir w q = Inr False"
  by (simp add: is_dir_def exists_path_def split: stat_result.splits)

text \<open>What \<open>is_dir\<close> and \<open>exists\<close> raise is an \<open>OSError\<close>, never a \<open>ValueError\<close>.\<close>

lemma os_exn_no_ValueError: "cls (os_exn x) \<noteq> ValueError"
  by (cases x) simp_all

lemma is_dir_raises: "is_dir w q = Inl e \<Longrightarrow> cls e \<noteq> ValueError"
  by (auto simp add: is_dir_def os_exn_no_ValueError split: stat_result.splits)

lemma exists_path_raises: "exists_path w q = Inl e \<Longrightarrow> cls e \<noteq> ValueError"
  by (auto simp add: exists_path_def os_exn_no_ValueError split: stat_result.splits)

lemma after_Nil: "after [] r = r"
  by (simp add: after_def)

lemma after_after: "after xs (after ys r) = after (xs @ ys) r"
  by (simp add: after_def)

lemma batch_report_Nil: "batch_report w s cb ce cv [] = []"
  by (simp add: batch_report_def)

lemma batch_report_Cons:
  "batch_report w s cb ce cv (sp # rest) =
     (if is_dir w sp = Inr True
      then session_report w s cb ce cv sp @ batch_report w s cb ce cv rest
      else batch_report w s cb ce cv rest)"
  by (simp add: batch_report_def)

lemma batch_report_append:
  "batch_report w s cb ce cv (xs @ ys) = batch_report w s cb ce cv xs @ batch_report w s cb ce cv ys"
  by (simp add: batch_report_def)




lemma validate_each_pass:
  "is_dir w sp = Inr True \<Longrightarrow> validate_raw_session w sp s cb ce cv = None \<Longrightarrow>
   rich_print w (good_line sp) = None \<Longrightarrow>
   validate_each w s cb ce cv (sp # rest)
     = after [ValidateRaw sp s cb ce cv, Print (good_line sp)] (validate_each w s cb ce cv rest)"
  by (simp add: print_then_def after_def)

lemma validate_each_fail:
  "is_dir w sp = Inr True \<Longrightarrow> validate_raw_session w sp s cb ce cv = Some e \<Longrightarrow>
   is_Exception (cls e) \<Longrightarrow> args e = a # as \<Longrightarrow>
   rich_print w (problem_line sp a) = None \<Longrightarrow>
   validate_each w s cb ce cv (sp # rest)
     = after [ValidateRaw sp s cb ce cv, Print (problem_line sp a)]
         (validate_each w s cb ce cv rest)"
  by (simp add: print_then_def after_def)

lemma handled_step:
  assumes "handled w s cb ce cv sp"
  shows "validate_each w s cb ce cv (sp # rest)
           = after (batch_report w s cb ce cv [sp]) (validate_each w s cb ce cv rest)"
proof (cases "is_dir w sp")
  case (Inl e)
  with assms show ?thesis by (simp add: handled_def)
next
  case (Inr d)
  show ?thesis
  proof (cases d)
    case False
    with Inr show ?thesis
      by (simp add: batch_report_Cons batch_report_Nil after_Nil)
  next
    case True
    with Inr have dir: "is_dir w sp = Inr True" by simp
    show ?thesis
    proof (cases "validate_raw_session w sp s cb ce cv")
      case None
      with assms dir have "rich_print w (good_line sp) = None"
        by (simp add: handled_def)
      with dir None show ?thesis
        by (simp add: validate_each_pass batch_report_Cons batch_report_Nil session_report_def
            del: validate_each.simps)
    next
      case (Some e)
      obtain k as where e: "e = Exn k as" by (cases e)
      from assms dir Some e obtain a as' where as: "as = a # as'" and k: "is_Exception k"
        and pr: "rich_print w (problem_line sp a) = None"
        by (cases as) (auto simp add: handled_def)
      have "validate_each w s cb ce cv (sp # rest)
              = after [ValidateRaw sp s cb ce cv, Print (problem_line sp a)]
                  (validate_each w s cb ce cv rest)"
        using validate_each_fail [of w sp s cb ce cv e a as' rest] dir Some k pr e as
        by (simp del: validate_each.simps)
      with dir Some e as show ?thesis
        by (simp add: batch_report_Cons batch_report_Nil session_report_def
            del: validate_each.simps)
    qed
  qed
qed

text \<open>Entries the loop gets past contribute their report, and the loop goes on behind them.\<close>

lemma validate_each_append:
  "all_handled w s cb ce cv pre \<Longrightarrow>
   validate_each w s cb ce cv (pre @ ys)
     = after (batch_report w s cb ce cv pre) (validate_each w s cb ce cv ys)"
proof (induction pre)
  case Nil
  show ?case by (simp add: batch_report_Nil after_Nil)
next
  case (Cons sp pre)
  from Cons.prems have h: "handled w s cb ce cv sp" and rest: "all_handled w s cb ce cv pre"
    by (simp_all add: all_handled_def)
  have "validate_each w s cb ce cv ((sp # pre) @ ys)
          = after (batch_report w s cb ce cv [sp]) (validate_each w s cb ce cv (pre @ ys))"
    using handled_step [OF h] by simp
  also have "\<dots> = after (batch_report w s cb ce cv [sp])
                      (after (batch_report w s cb ce cv pre) (validate_each w s cb ce cv ys))"
    using Cons.IH [OF rest] by simp
  also have "\<dots> = after (batch_report w s cb ce cv (sp # pre)) (validate_each w s cb ce cv ys)"
    using batch_report_append [of w s cb ce cv "[sp]" pre] by (simp add: after_after)
  finally show ?case .
qed

lemma validate_each_all_handled:
  "all_handled w s cb ce cv entries \<Longrightarrow>
   validate_each w s cb ce cv entries = (batch_report w s cb ce cv entries, Return NoneVal)"
  using validate_each_append [of w s cb ce cv entries "[]"] by (simp add: after_def)



text \<open>The small world.\<close>

lemma demo_fields:
  "cwd demo = [''data'', ''raw'', ''M017'']"
  "stat demo = demo_stat"
  "listdir demo = demo_listdir"
  "config demo = \<lparr> LOCAL_PATH = Path True [''data''], REMOTE_PATH = Path True [''nas''] \<rparr>"
  "validate_raw_session demo = demo_validate"
  "rich_print demo = (\<lambda>text. None)"
  by (simp_all add: demo_def)

lemma subject_path_demo: "subject_path demo ''raw'' ''M017'' = subject_dir"
  by (simp add: subject_path_def truediv_def parse_parts_def demo_fields subject_dir_def)

lemma listdir_demo:
  "listdir demo (subject_path demo ''raw'' ''M017'') = Inr [''M017_a'', ''notes.txt'', ''M017_b'']"
  by (simp add: subject_path_demo demo_fields demo_listdir_def)

lemma listdir_subject_dir:
  "listdir demo subject_dir = Inr [''M017_a'', ''notes.txt'', ''M017_b'']"
  by (simp add: demo_fields demo_listdir_def)

lemma is_dir_demo:
  "is_dir demo (child subject_dir ''M017_a'') = Inr True"
  "is_dir demo (child subject_dir ''notes.txt'') = Inr False"
  "is_dir demo (child subject_dir ''M017_b'') = Inr True"
  by (simp_all add: is_dir_def demo_fields demo_stat_def subject_dir_def child_def)

lemma demo_validate_simps:
  "demo_validate (child subject_dir ''M017_a'') s b e v
     = Some (Exn ValueError [''Could not find ephys recordings''])"
  "demo_validate (child subject_dir ''M017_b'') s b e v = None"
  by (simp_all add: demo_validate_def subject_dir_def child_def)

lemma handled_demo:
  "handled demo ''M017'' b e v (child subject_dir ''M017_a'')"
  "handled demo ''M017'' b e v (child subject_dir ''notes.txt'')"
  "handled demo ''M017'' b e v (child subject_dir ''M017_b'')"
  by (simp_all add: handled_def is_dir_demo demo_fields demo_validate_simps)

lemma batch_report_demo:
  "batch_report demo ''M017'' b e v (map (child subject_dir) [''M017_a'', ''notes.txt'', ''M017_b''])
     = [ValidateRaw (child subject_dir ''M017_a'') ''M017'' b e v,
        Print (problem_line (child subject_dir ''M017_a'') ''Could not find ephys recordings''),
        ValidateRaw (child subject_dir ''M017_b'') ''M017'' b e v,
        Print (good_line (child subject_dir ''M017_b''))]"
  by (simp add: batch_report_def session_report_def is_dir_demo demo_fields demo_validate_simps)

lemma stat_long_name: "stat demo (absolute demo long_name) = Fails NameTooLong"
  by (simp add: absolute_def long_name_def demo_fields demo_stat_def)

lemma stat_notes: "stat demo (absolute demo (Path False [''notes.txt''])) = Found RegularFile"
  by (simp add: absolute_def demo_fields demo_stat_def subject_dir_def child_def)

lemma stat_missing: "stat demo (absolute demo (Path False [''M017_z''])) = Unresolved"
  by (simp add: absolute_def demo_fields demo_stat_def subject_dir_def child_def)



text \<open>
  The handler of the batch reads \<open>e.args[0]\<close>: an exception without arguments, here a bare
  \<open>assert\<close> in the validation of \<open>M017_a\<close>, makes the handler itself raise \<open>IndexError\<close>, and
  the batch ends there.
\<close>

lemma handler_needs_an_argument:
  "validate_sessions unexplained ''M017'' ''raw'' True True True
     = ([ValidateRaw (child subject_dir ''M017_a'') ''M017'' True True True],
        Raise (Exn IndexError [''tuple index out of range'']))"
  by (simp add: validate_sessions_def subject_path_def truediv_def parse_parts_def iterdir_def
      unexplained_def demo_def demo_listdir_def is_dir_def demo_stat_def subject_dir_def child_def)

text \<open>
  Both calls of \<open>print\<close> are outside the \<open>try\<close> block: when \<open>rich.print\<close> raises on the
  line about \<open>M017_a\<close>, the batch ends there.
\<close>

lemma print_outside_try:
  "validate_sessions tagged ''M017'' ''raw'' True True True
     = ([ValidateRaw (child subject_dir ''M017_a'') ''M017'' True True True],
        Raise (Exn MarkupError
          [''closing tag [/ephys] at position 47 does not match any open tag'']))"
  by (simp add: validate_sessions_def subject_path_def truediv_def parse_parts_def iterdir_def
      tagged_def demo_def demo_listdir_def is_dir_def demo_stat_def subject_dir_def child_def
      print_then_def after_def)

section \<open>Properties\<close>

text \<open>
  C1. Every command called with a processing level other than \<open>raw\<close> raises
  \<open>NotImplementedError\<close>, and nothing has happened before: the trace is empty, so no
  validation, upload or renaming was called and nothing was printed.
\<close>

theorem processing_level_not_raw:
  assumes "processing_level \<noteq> ''raw''"
  shows "validate_session w p s processing_level cb ce cv = ([], Raise only_raw)
       \<and> validate_sessions w s processing_level cb ce cv = ([], Raise only_raw)
       \<and> upload_session w p s processing_level cb ce cv = ([], Raise only_raw)
       \<and> rename_videos w p s processing_level verbose = ([], Raise only_raw)
       \<and> cls only_raw = NotImplementedError"
  using assms
  by (simp add: validate_session_def validate_sessions_def upload_session_def
      rename_videos_def only_raw_def)

theorem processing_level_not_raw_witness:
  "''processed'' \<noteq> ''raw''
   \<and> validate_session demo (Path False [''M017_b'']) ''M017'' ''processed'' True True True
       = ([], Raise only_raw)
   \<and> validate_sessions demo ''M017'' ''processed'' True True True = ([], Raise only_raw)
   \<and> upload_session demo (Path False [''M017_b'']) ''M017'' ''processed'' True True True
       = ([], Raise only_raw)
   \<and> rename_videos demo (Path False [''M017_b'']) ''M017'' ''processed'' False
       = ([], Raise only_raw)
   \<and> cls only_raw = NotImplementedError"
proof -
  have ne: "''processed'' \<noteq> ''raw''" by simp
  show ?thesis
    using ne processing_level_not_raw [OF ne, of demo "Path False [''M017_b'']" "''M017''"
        True True True False]
    by simp
qed

text \<open>
  C2. With processing level \<open>raw\<close> and all three modality flags false, \<open>validate_session\<close>,
  \<open>upload_session\<close> and \<open>validate_sessions\<close> raise \<open>ValueError\<close>; the trace is empty, so
  neither \<open>validate_raw_session\<close> nor \<open>upload_raw_session\<close> was called: an empty selection
  is not a success that does nothing.
\<close>

theorem empty_selection_rejected:
  "validate_session w p s ''raw'' False False False = ([], Raise none_checked)
   \<and> upload_session w p s ''raw'' False False False = ([], Raise none_checked)
   \<and> validate_sessions w s ''raw'' False False False = ([], Raise none_checked)
   \<and> cls none_checked = ValueError"
  by (simp add: validate_session_def upload_session_def validate_sessions_def none_checked_def)

text \<open>
  C5, as the code has it. When \<open>exists\<close> or \<open>is_dir\<close> answers False for the session path
  (it does not exist or is not a directory), \<open>validate_session\<close> with processing level
  \<open>raw\<close> raises a \<open>ValueError\<close> at once, the one about the directory when a modality is
  selected; and with any processing level the trace is empty and the run ends in an
  exception, so \<open>validate_raw_session\<close> is not called.
\<close>

theorem validate_session_bad_path:
  assumes "exists_path w (absolute w p) = Inr False \<or> is_dir w (absolute w p) = Inr False"
  shows "(\<exists>msg. validate_session w p s ''raw'' cb ce cv = ([], Raise (Exn ValueError [msg])))
       \<and> (cb \<or> ce \<or> cv \<longrightarrow>
            validate_session w p s ''raw'' cb ce cv = ([], Raise not_a_directory))
       \<and> fst (validate_session w p s level cb ce cv) = []
       \<and> (\<exists>e. snd (validate_session w p s level cb ce cv) = Raise e)"
proof -
  from assms have nd: "is_dir w (absolute w p) = Inr False"
    using missing_is_no_directory by blast
  show ?thesis
    using nd
    by (simp add: validate_session_def only_raw_def none_checked_def not_a_directory_def)
qed

text \<open>C5 at \<open>notes.txt\<close>, which exists and is a file.\<close>

theorem validate_session_bad_path_witness:
  "exists_path demo (absolute demo (Path False [''notes.txt''])) = Inr True
   \<and> is_dir demo (absolute demo (Path False [''notes.txt''])) = Inr False
   \<and> validate_session demo (Path False [''notes.txt'']) ''M017'' ''raw'' True True True
       = ([], Raise not_a_directory)"
proof -
  have ex: "exists_path demo (absolute demo (Path False [''notes.txt''])) = Inr True"
    by (simp add: exists_path_def stat_notes)
  have nd: "is_dir demo (absolute demo (Path False [''notes.txt''])) = Inr False"
    by (simp add: is_dir_def stat_notes)
  then have h: "exists_path demo (absolute demo (Path False [''notes.txt''])) = Inr False
      \<or> is_dir demo (absolute demo (Path False [''notes.txt''])) = Inr False"
    by simp
  show ?thesis
    using ex nd validate_session_bad_path [OF h, of "''M017''" True True True]
    by simp
qed

text \<open>
  C5 as stated fails. The file \<open>notes.txt\<close> is not a directory, and with processing level
  \<open>processed\<close> the exception is \<open>NotImplementedError\<close>, from the first check of the command.
  And a name of 300 characters, which no file has, makes \<open>is_dir\<close> raise the \<open>OSError\<close> of
  \<open>stat\<close>, which leaves \<open>validate_session\<close> as it is.
\<close>

theorem bad_path_other_errors:
  "is_dir demo (absolute demo (Path False [''notes.txt''])) = Inr False
   \<and> validate_session demo (Path False [''notes.txt'']) ''M017'' ''processed'' True True True
       = ([], Raise (Exn NotImplementedError [''Sorry, only raw data is supported for now.'']))
   \<and> stat demo (absolute demo long_name) = Fails NameTooLong
   \<and> validate_session demo long_name ''M017'' ''raw'' True True True
       = ([], Raise (Exn OSError [''36'', ''File name too long'']))"
  by (simp add: validate_session_def is_dir_def stat_notes stat_long_name only_raw_def)

text \<open>
  C10, as the code has it. In \<open>validate_session\<close> and in \<open>rename_videos\<close> the branch that
  raises \<open>ValueError("Session path does not exist.")\<close> is never taken: no call ends with
  that exception before the imported operation is called, because the test for a directory
  comes first and a path that \<open>is_dir\<close> accepts exists. A call with processing level \<open>raw\<close>
  (and, for \<open>validate_session\<close>, a modality selected) on a path for which \<open>exists\<close> answers
  False raises \<open>ValueError("Session path must be a directory.")\<close>.
\<close>

theorem does_not_exist_unreachable:
  "validate_session w p s level cb ce cv \<noteq> ([], Raise does_not_exist)
   \<and> rename_videos w p s level verbose \<noteq> ([], Raise does_not_exist)
   \<and> (is_dir w (absolute w p) = Inr True \<longrightarrow> exists_path w (absolute w p) = Inr True)
   \<and> (exists_path w (absolute w p) = Inr False \<and> (cb \<or> ce \<or> cv) \<longrightarrow>
        validate_session w p s ''raw'' cb ce cv = ([], Raise not_a_directory))
   \<and> (exists_path w (absolute w p) = Inr False \<longrightarrow>
        rename_videos w p s ''raw'' verbose = ([], Raise not_a_directory))"
proof -
  let ?q = "absolute w p"
  have imp: "is_dir w ?q = Inr True \<longrightarrow> exists_path w ?q = Inr True"
    using is_dir_exists by blast
  have other: "e \<noteq> does_not_exist" if "is_dir w ?q = Inl e" for e
    using is_dir_raises [OF that] by (auto simp add: does_not_exist_def)
  have a: "validate_session w p s level cb ce cv \<noteq> ([], Raise does_not_exist)"
  proof (cases "is_dir w ?q")
    case (Inl e)
    with other [OF Inl] show ?thesis
      by (simp add: validate_session_def only_raw_def none_checked_def does_not_exist_def)
  next
    case (Inr d)
    with imp show ?thesis
      by (cases d)
        (auto simp add: validate_session_def finish_def only_raw_def none_checked_def
          not_a_directory_def does_not_exist_def split: option.splits)
  qed
  have b: "rename_videos w p s level verbose \<noteq> ([], Raise does_not_exist)"
  proof (cases "is_dir w ?q")
    case (Inl e)
    with other [OF Inl] show ?thesis
      by (simp add: rename_videos_def only_raw_def does_not_exist_def)
  next
    case (Inr d)
    with imp show ?thesis
      by (cases d)
        (auto simp add: rename_videos_def finish_def only_raw_def
          not_a_directory_def does_not_exist_def split: option.splits)
  qed
  have c: "exists_path w ?q = Inr False \<and> (cb \<or> ce \<or> cv) \<longrightarrow>
        validate_session w p s ''raw'' cb ce cv = ([], Raise not_a_directory)"
    using missing_is_no_directory [of w ?q] by (auto simp add: validate_session_def)
  have d: "exists_path w ?q = Inr False \<longrightarrow>
        rename_videos w p s ''raw'' verbose = ([], Raise not_a_directory)"
    using missing_is_no_directory [of w ?q] by (auto simp add: rename_videos_def)
  from a b imp c d show ?thesis by blast
qed

text \<open>C10 at \<open>M017_z\<close>, which does not exist.\<close>

theorem does_not_exist_unreachable_witness:
  "exists_path demo (absolute demo (Path False [''M017_z''])) = Inr False
   \<and> validate_session demo (Path False [''M017_z'']) ''M017'' ''raw'' True False True
       = ([], Raise not_a_directory)
   \<and> rename_videos demo (Path False [''M017_z'']) ''M017'' ''raw'' False
       = ([], Raise not_a_directory)"
proof -
  have h: "exists_path demo (absolute demo (Path False [''M017_z''])) = Inr False"
    by (simp add: exists_path_def stat_missing)
  show ?thesis
    using h does_not_exist_unreachable [of demo "Path False [''M017_z'']" "''M017''" _
        True False True False]
    by simp
qed

text \<open>
  C10 as stated fails in its second half. A name of 300 characters, which no file has,
  makes \<open>is_dir\<close> raise the \<open>OSError\<close> of \<open>stat\<close>; and for \<open>M017_z\<close>, which does not exist, a
  processing level other than \<open>raw\<close> gives \<open>NotImplementedError\<close> and an empty selection gives
  the \<open>ValueError\<close> about the data types.
\<close>

theorem missing_path_other_errors:
  "stat demo (absolute demo long_name) = Fails NameTooLong
   \<and> rename_videos demo long_name ''M017'' ''raw'' False
       = ([], Raise (Exn OSError [''36'', ''File name too long'']))
   \<and> exists_path demo (absolute demo (Path False [''M017_z''])) = Inr False
   \<and> rename_videos demo (Path False [''M017_z'']) ''M017'' ''processed'' False
       = ([], Raise (Exn NotImplementedError [''Sorry, only raw data is supported for now.'']))
   \<and> validate_session demo (Path False [''M017_z'']) ''M017'' ''raw'' False False False
       = ([], Raise (Exn ValueError [''At least one data type must be checked.'']))"
  by (simp add: rename_videos_def validate_session_def is_dir_def exists_path_def stat_missing
      stat_long_name only_raw_def none_checked_def)

text \<open>
  C6. \<open>upload_session\<close> with processing level \<open>raw\<close> and a modality selected does one thing:
  it calls \<open>upload_raw_session\<close>. The trace is that single call, so \<open>validate_raw_session\<close>
  is not called; the run is the same whatever the file system holds and whatever the
  validator would say, so the session path is not tested for existence or for being a
  directory; and the outcome is \<open>True\<close> or the exception of the upload.
\<close>

theorem upload_session_no_validation:
  assumes "ib \<or> ie \<or> iv"
  shows "fst (upload_session w p s ''raw'' ib ie iv)
           = [UploadRaw (absolute w p) s (LOCAL_PATH (config w)) (REMOTE_PATH (config w)) ib ie iv]
       \<and> filter is_validation (fst (upload_session w p s ''raw'' ib ie iv)) = []
       \<and> upload_session (w\<lparr>stat := st, listdir := ld, validate_raw_session := vrs\<rparr>)
             p s ''raw'' ib ie iv
           = upload_session w p s ''raw'' ib ie iv
       \<and> snd (upload_session w p s ''raw'' ib ie iv)
           = (case upload_raw_session w (absolute w p) s (LOCAL_PATH (config w))
                     (REMOTE_PATH (config w)) ib ie iv of
                None \<Rightarrow> Return (BoolVal True) | Some e \<Rightarrow> Raise e)"
  using assms
  by (auto simp add: upload_session_def finish_def absolute_def split: option.splits)

text \<open>C6 at \<open>M017_z\<close>, which does not exist: the upload is called all the same.\<close>

theorem upload_session_no_validation_witness:
  "(True \<or> False \<or> True)
   \<and> upload_session demo (Path False [''M017_z'']) ''M017'' ''raw'' True False True
       = ([UploadRaw (Path True [''data'', ''raw'', ''M017'', ''M017_z'']) ''M017''
             (Path True [''data'']) (Path True [''nas'']) True False True],
          Return (BoolVal True))
   \<and> exists_path demo (absolute demo (Path False [''M017_z''])) = Inr False"
proof -
  have h: "True \<or> False \<or> True" by simp
  have ne: "exists_path demo (absolute demo (Path False [''M017_z''])) = Inr False"
    by (simp add: exists_path_def stat_missing)
  have run: "upload_session demo (Path False [''M017_z'']) ''M017'' ''raw'' True False True
       = ([UploadRaw (Path True [''data'', ''raw'', ''M017'', ''M017_z'']) ''M017''
             (Path True [''data'']) (Path True [''nas'']) True False True],
          Return (BoolVal True))"
    using upload_session_no_validation [OF h, of demo "Path False [''M017_z'']" "''M017''"]
    by (simp add: prod_eq_iff absolute_def demo_def)
  from h ne run show ?thesis by blast
qed

text \<open>
  C8. Every call of \<open>upload_raw_session\<close> that \<open>upload_session\<close> makes gets
  \<open>config.LOCAL_PATH\<close> as the local root and \<open>config.REMOTE_PATH\<close> as the remote root, as
  they are; with processing level \<open>raw\<close> and a modality selected there is exactly one such
  call; and the roots passed are the same for every session path and subject name.
\<close>

theorem upload_session_roots:
  "(\<forall>ev \<in> set (fst (upload_session w p s level ib ie iv)).
      roots_passed ev = Some (LOCAL_PATH (config w), REMOTE_PATH (config w)))
   \<and> (level = ''raw'' \<and> (ib \<or> ie \<or> iv) \<longrightarrow>
        map roots_passed (fst (upload_session w p s level ib ie iv))
          = [Some (LOCAL_PATH (config w), REMOTE_PATH (config w))])
   \<and> (config w' = config w \<longrightarrow>
        map roots_passed (fst (upload_session w' p' s' level ib ie iv))
          = map roots_passed (fst (upload_session w p s level ib ie iv)))"
  by (auto simp add: upload_session_def finish_def split: option.splits)

text \<open>C8 at the session \<open>M017_b\<close>.\<close>

theorem upload_session_roots_witness:
  "LOCAL_PATH (config demo) = Path True [''data'']
   \<and> REMOTE_PATH (config demo) = Path True [''nas'']
   \<and> map roots_passed (fst (upload_session demo (Path False [''M017_b'']) ''M017'' ''raw''
                              True True True))
        = [Some (Path True [''data''], Path True [''nas''])]"
  using upload_session_roots [of demo "Path False [''M017_b'']" "''M017''" "''raw''"
      True True True]
  by (simp add: demo_def)




text \<open>
  C3, as the code has it. In \<open>validate_sessions\<close> each session directory is validated on
  its own. Take a session directory \<open>sp\<close> that the loop gets to, the entries \<open>pre\<close> before it
  being dealt with, on which \<open>validate_raw_session\<close> raises an \<open>Exception\<close> with at least one
  argument, and let \<open>rich.print\<close> take the line about it. Then the exception is caught and
  recorded against the name of \<open>sp\<close>, and the loop goes on with the entries behind \<open>sp\<close>
  exactly as it would run on them alone, whatever happens there. When those entries are
  dealt with as well, the batch returns and its trace is the batch report: every session
  directory validated, and for each a line with its name that says it passed or that it
  failed with a reason. The two kinds of line are never the same text.
\<close>

theorem batch_isolation:
  assumes "cb \<or> ce \<or> cv"
    and "iterdir w (subject_path w ''raw'' s) = Inr (pre @ sp # rest)"
    and "all_handled w s cb ce cv pre"
    and "is_dir w sp = Inr True"
    and "validate_raw_session w sp s cb ce cv = Some e"
    and "is_Exception (cls e)"
    and "args e = a # as"
    and "rich_print w (problem_line sp a) = None"
  shows "validate_sessions w s ''raw'' cb ce cv
           = after (batch_report w s cb ce cv pre
                      @ [ValidateRaw sp s cb ce cv, Print (problem_line sp a)])
               (validate_each w s cb ce cv rest)
       \<and> (all_handled w s cb ce cv rest \<longrightarrow>
            validate_sessions w s ''raw'' cb ce cv
              = (batch_report w s cb ce cv (pre @ sp # rest), Return NoneVal))
       \<and> good_line (child d n) = ''[bold green]'' @ n @ '' looking good.'' @ [CHR 0x0A]
       \<and> problem_line (child d n) a'
           = ''[bold red]Problem with '' @ n @ '': '' @ a' @ [CHR 0x0A]
       \<and> good_line sp' \<noteq> problem_line sp'' a'"
proof -
  have run: "validate_sessions w s ''raw'' cb ce cv = validate_each w s cb ce cv (pre @ sp # rest)"
    using assms(1,2) by (auto simp add: validate_sessions_def)
  have step: "validate_each w s cb ce cv (sp # rest)
                = after [ValidateRaw sp s cb ce cv, Print (problem_line sp a)]
                    (validate_each w s cb ce cv rest)"
    using assms(4-8) by (rule validate_each_fail)
  have one: "validate_sessions w s ''raw'' cb ce cv
           = after (batch_report w s cb ce cv pre
                      @ [ValidateRaw sp s cb ce cv, Print (problem_line sp a)])
               (validate_each w s cb ce cv rest)"
    unfolding run validate_each_append [OF assms(3)] step after_after ..
  have h: "handled w s cb ce cv sp"
    using assms(4-8) by (simp add: handled_def)
  have two: "validate_sessions w s ''raw'' cb ce cv
              = (batch_report w s cb ce cv (pre @ sp # rest), Return NoneVal)"
    if "all_handled w s cb ce cv rest"
  proof -
    from assms(3) h that have "all_handled w s cb ce cv (pre @ sp # rest)"
      by (simp add: all_handled_def)
    then show ?thesis
      unfolding run by (rule validate_each_all_handled)
  qed
  have lines: "good_line (child d n) = ''[bold green]'' @ n @ '' looking good.'' @ [CHR 0x0A]"
    "problem_line (child d n) a' = ''[bold red]Problem with '' @ n @ '': '' @ a' @ [CHR 0x0A]"
    "good_line sp' \<noteq> problem_line sp'' a'"
    by (simp_all add: good_line_def problem_line_def path_name_def child_def)
  from one two lines show ?thesis by blast
qed

text \<open>
  C3 at the subject \<open>M017\<close>: \<open>M017_a\<close> fails and is reported with the reason, and \<open>M017_b\<close>
  is validated and reported as passed after it.
\<close>

theorem batch_isolation_witness:
  "iterdir demo (subject_path demo ''raw'' ''M017'')
       = Inr ([] @ child subject_dir ''M017_a''
                # [child subject_dir ''notes.txt'', child subject_dir ''M017_b''])
   \<and> is_dir demo (child subject_dir ''M017_a'') = Inr True
   \<and> validate_raw_session demo (child subject_dir ''M017_a'') ''M017'' True True True
       = Some (Exn ValueError [''Could not find ephys recordings''])
   \<and> all_handled demo ''M017'' True True True
       [child subject_dir ''notes.txt'', child subject_dir ''M017_b'']
   \<and> validate_sessions demo ''M017'' ''raw'' True True True
       = ([ValidateRaw (child subject_dir ''M017_a'') ''M017'' True True True,
           Print (problem_line (child subject_dir ''M017_a'') ''Could not find ephys recordings''),
           ValidateRaw (child subject_dir ''M017_b'') ''M017'' True True True,
           Print (good_line (child subject_dir ''M017_b''))],
          Return NoneVal)"
proof -
  have h1: "True \<or> True \<or> True" by simp
  have h2: "iterdir demo (subject_path demo ''raw'' ''M017'')
       = Inr ([] @ child subject_dir ''M017_a''
                # [child subject_dir ''notes.txt'', child subject_dir ''M017_b''])"
    by (simp add: iterdir_def listdir_subject_dir subject_path_demo)
  have h3: "all_handled demo ''M017'' True True True []"
    by (simp add: all_handled_def)
  have h5: "validate_raw_session demo (child subject_dir ''M017_a'') ''M017'' True True True
       = Some (Exn ValueError [''Could not find ephys recordings''])"
    by (simp add: demo_fields demo_validate_simps)
  have h6: "is_Exception (cls (Exn ValueError [''Could not find ephys recordings'']))"
    by simp
  have h7: "args (Exn ValueError [''Could not find ephys recordings''])
              = ''Could not find ephys recordings'' # []"
    by simp
  have h8: "rich_print demo (problem_line (child subject_dir ''M017_a'')
              ''Could not find ephys recordings'') = None"
    by (simp add: demo_fields)
  have rest: "all_handled demo ''M017'' True True True
       [child subject_dir ''notes.txt'', child subject_dir ''M017_b'']"
    by (simp add: all_handled_def handled_demo)
  have report: "batch_report demo ''M017'' True True True
          ([] @ child subject_dir ''M017_a''
             # [child subject_dir ''notes.txt'', child subject_dir ''M017_b''])
       = [ValidateRaw (child subject_dir ''M017_a'') ''M017'' True True True,
          Print (problem_line (child subject_dir ''M017_a'') ''Could not find ephys recordings''),
          ValidateRaw (child subject_dir ''M017_b'') ''M017'' True True True,
          Print (good_line (child subject_dir ''M017_b''))]"
    using batch_report_demo [of True True True] by simp
  from batch_isolation [OF h1 h2 h3 is_dir_demo(1) h5 h6 h7 h8] rest
  have "validate_sessions demo ''M017'' ''raw'' True True True
          = (batch_report demo ''M017'' True True True
               ([] @ child subject_dir ''M017_a''
                  # [child subject_dir ''notes.txt'', child subject_dir ''M017_b'']),
             Return NoneVal)"
    by blast
  with h2 is_dir_demo(1) h5 rest report show ?thesis by simp
qed

text \<open>
  C3 as stated fails: an exception that is not an \<open>Exception\<close> is not caught. When the
  validation of \<open>M017_a\<close> is interrupted from the keyboard, the batch ends with that
  exception, nothing is recorded for \<open>M017_a\<close>, and the session directory \<open>M017_b\<close> is not
  validated.
\<close>

theorem interrupt_leaves_batch:
  "validate_raw_session interrupted (child subject_dir ''M017_a'') ''M017'' True True True
     = Some (Exn KeyboardInterrupt [])
   \<and> is_dir interrupted (child subject_dir ''M017_b'') = Inr True
   \<and> validate_sessions interrupted ''M017'' ''raw'' True True True
       = ([ValidateRaw (child subject_dir ''M017_a'') ''M017'' True True True],
          Raise (Exn KeyboardInterrupt []))"
  by (simp add: validate_sessions_def subject_path_def truediv_def parse_parts_def iterdir_def
      interrupted_def demo_def demo_listdir_def is_dir_def demo_stat_def subject_dir_def
      child_def)

text \<open>
  C4, as the code has it. A call of \<open>validate_sessions\<close> with processing level \<open>raw\<close> and a
  modality selected returns, with no exception, when the subject directory can be listed
  and every entry is dealt with: \<open>is_dir\<close> answers for it, and when it is a directory,
  \<open>validate_raw_session\<close> returns or raises an \<open>Exception\<close> with at least one argument, and
  \<open>rich.print\<close> takes the line about it.
\<close>

theorem batch_returns:
  assumes "cb \<or> ce \<or> cv"
    and "listdir w (subject_path w ''raw'' s) = Inr names"
    and "all_handled w s cb ce cv (map (child (subject_path w ''raw'' s)) names)"
  shows "snd (validate_sessions w s ''raw'' cb ce cv) = Return NoneVal"
  using assms
  by (auto simp add: validate_sessions_def iterdir_def validate_each_all_handled)

text \<open>C4 at the subject \<open>M017\<close>, checking the videos only.\<close>

theorem batch_returns_witness:
  "listdir demo (subject_path demo ''raw'' ''M017'') = Inr [''M017_a'', ''notes.txt'', ''M017_b'']
   \<and> all_handled demo ''M017'' False False True
       (map (child (subject_path demo ''raw'' ''M017'')) [''M017_a'', ''notes.txt'', ''M017_b''])
   \<and> snd (validate_sessions demo ''M017'' ''raw'' False False True) = Return NoneVal"
proof -
  have h1: "False \<or> False \<or> True" by simp
  have h3: "all_handled demo ''M017'' False False True
       (map (child (subject_path demo ''raw'' ''M017'')) [''M017_a'', ''notes.txt'', ''M017_b''])"
    unfolding subject_path_demo by (simp add: all_handled_def handled_demo)
  from listdir_demo h3 batch_returns [OF h1 listdir_demo h3]
  show ?thesis by blast
qed

text \<open>
  C4 as stated fails: the listing of the subject directory is not guarded. For the subject
  \<open>M099\<close>, which has no directory under \<open>/data/raw\<close>, the \<open>FileNotFoundError\<close> of the listing
  leaves the batch call.
\<close>

theorem missing_subject_directory:
  "validate_sessions demo ''M099'' ''raw'' True True True
     = ([], Raise (Exn FileNotFoundError [''2'', ''No such file or directory'']))"
  by (simp add: validate_sessions_def subject_path_def truediv_def parse_parts_def iterdir_def
      demo_def demo_listdir_def demo_stat_def subject_dir_def child_def)



end
